theory Spec2Isabelle
  imports Main "HOL-Library.Word"
begin

section \<open>Machine types and data of ksym_mod.c\<close>

text \<open>
  The model fixes the LP64 data model: \<open>unsigned long\<close> is a 64-bit word and \<open>int\<close> a
  32-bit word (read as two's complement by \<open>sint\<close>). Arithmetic on both wraps around.
\<close>

type_synonym ulong = "64 word"
type_synonym cint = "32 word"

text \<open>
  \<open>struct sym_table\<close>: one exported symbol, its address and its name. The field
  names carry the suffix \<open>_st\<close>.
\<close>

record sym_table =
  value_st :: ulong
  name_st :: string

text \<open>
  \<open>LINUX_VERSION_CODE\<close> comes from \<open>linux/version.h\<close>, which is not among the
  sources. It is a parameter of the model, \<open>ver\<close>: \<open>struct Module\<close> has its member
  \<open>module_info\<close> only from \<open>0x20112\<close> on, and from there on the lookup reads the
  module's address in that member.
\<close>

type_synonym version = int

text \<open>
  \<open>struct Module\<close>. The block behind the pointer \<open>sym_array\<close> is a list of slots:
  \<open>None\<close> for the pointer is \<open>NULL\<close>, \<open>None\<close> for a slot is memory that
  \<open>realloc\<close> handed out and nobody has written yet. \<open>num_syms\<close> is kept apart from
  the block, as in the source, since the two can disagree after a failed allocation.
  \<open>mname\<close> is the field \<open>name\<close>.
\<close>

text \<open>
  Modelled from the spec: \<open>module.h\<close> with \<open>struct module\<close> and
  \<open>struct module_info\<close> is not among the sources. Following the spec's
  \<open>GetModuleInfo(name) -> { base_address, size_in_pages }\<close>, what \<open>QM_INFO\<close>
  writes into \<open>mp->module\<close> is kept as the two fields \<open>module_addr\<close>
  (\<open>mp->module.addr\<close>) and \<open>module_size\<close> (\<open>mp->module.size\<close>), both unsigned
  long. \<open>module_info_addr\<close> is \<open>mp->module_info.addr\<close>; the array of modules comes
  from \<open>malloc\<close>, so the field is \<open>None\<close>, memory nobody has written, until some
  code stores an address there.
\<close>

record Module =
  sym_array :: "sym_table option list option"
  num_syms :: nat
  mname :: string
  module_addr :: ulong
  module_size :: ulong
  module_info_addr :: "ulong option"

text \<open>
  Modelled from the spec: \<open>struct symbol\<close> is declared in \<open>ksyms.h\<close>, which is not
  among the sources; the spec's \<open>ResolutionResult\<close> gives it an integer \<open>offset\<close>
  and an integer \<open>size\<close>. They are taken as C ints, the type the lookup casts to before
  it stores the size of the tail. The field names carry the suffix \<open>_sy\<close>.
\<close>

record symbol =
  size_sy :: cint
  offset_sy :: cint

text \<open>
  The variables static to the file: the array \<open>sym_array_modules\<close> (its first
  \<open>num_modules\<close> entries, so that \<open>num_modules\<close> is its length and \<open>NULL\<close>
  is the empty list) and the flag \<open>have_modules\<close>. \<open>allocs\<close> counts the requests
  made to the allocator so far; it selects the allocator's next answer.
\<close>

record kstate =
  sym_array_modules :: "Module list"
  have_modules :: bool
  allocs :: nat

definition num_modules :: "kstate \<Rightarrow> nat" where
  "num_modules s = length (sym_array_modules s)"

text \<open>
  Where the language does not say what the C program does: a signed addition that
  overflows, a read through \<open>NULL\<close> or of memory nobody has written (what it holds
  is indeterminate), and a buffer size that is not positive, which doubling cannot
  grow.
\<close>

datatype fault = SignedOverflow | WildRead | NoBuffer

text \<open>\<open>mp->sym_array[i]\<close>, read: \<open>None\<close> through \<open>NULL\<close>, past the block or of
  an unwritten slot.\<close>

definition read_slot :: "Module \<Rightarrow> nat \<Rightarrow> sym_table option" where
  "read_slot mp i =
     (case sym_array mp of
        None \<Rightarrow> None
      | Some blk \<Rightarrow> if i < length blk then blk ! i else None)"

section \<open>The world outside: query_module and the allocator\<close>

text \<open>
  One call of \<open>query_module\<close> that fills a caller's buffer either succeeds
  (\<open>result >= 0\<close>), fails for lack of room (\<open>errno == ENOSPC\<close>), or fails otherwise.
\<close>

datatype 'a qm_reply = QM_OK 'a | QM_ENOSPC | QM_ERR

text \<open>
  The kernel and the C library, as the program sees them. \<open>qm_modules n\<close> answers
  \<open>QM_MODULES\<close> for a buffer of \<open>n\<close> bytes with the names of the loaded modules;
  \<open>qm_info name\<close> answers \<open>QM_INFO\<close> with address and size, or fails;
  \<open>qm_symbols name n\<close> answers \<open>QM_SYMBOLS\<close> with the exported symbols, each an
  address and a name (the name already read out of the buffer at its offset).
  \<open>alloc_ok k\<close> tells whether the \<open>k\<close>-th request to \<open>malloc\<close>,
  \<open>realloc\<close> or \<open>strdup\<close> is served. The kernel's answers depend on the
  arguments only: the set of modules does not change while the table is built.
\<close>

record world =
  qm_modules :: "int \<Rightarrow> string list qm_reply"
  qm_info :: "string \<Rightarrow> (ulong \<times> ulong) option"
  qm_symbols :: "string \<Rightarrow> int \<Rightarrow> (ulong \<times> string) list qm_reply"
  alloc_ok :: "nat \<Rightarrow> bool"

section \<open>Building the table\<close>

text \<open>The largest value of the 32-bit int that holds \<open>modsize\<close> and \<open>symsize\<close>.\<close>

definition INT_MAX :: int where
  "INT_MAX = 2147483647"

text \<open>
  The loop that grows a buffer until the query fits, written twice in the source: in
  \<open>InitMsyms\<close> (\<open>modsize\<close>, from 32) and in \<open>AddModule\<close> (\<open>symsize\<close>, from
  128). Each round doubles the int \<open>bufsize\<close>, asks \<open>realloc\<close> for that many bytes
  and queries. A failed \<open>realloc\<close> and an error other than \<open>ENOSPC\<close> end the
  function with \<open>return(0)\<close>, here \<open>None\<close>; \<open>ENOSPC\<close> starts the next round.
  \<open>h\<close> counts the allocator's requests. Both callers start from a positive size; the
  first test, never met from there, keeps the recursion well-founded.
\<close>

function grow_query ::
  "(nat \<Rightarrow> bool) \<Rightarrow> (int \<Rightarrow> 'a qm_reply) \<Rightarrow> int \<Rightarrow> nat \<Rightarrow> fault + ('a option \<times> nat)" where
  "grow_query ok q bufsize h =
     (if bufsize \<le> 0 then Inl NoBuffer
      else if INT_MAX < bufsize + bufsize then Inl SignedOverflow
      else if \<not> ok h then Inr (None, h + 1)
      else
        (case q (bufsize + bufsize) of
           QM_ERR \<Rightarrow> Inr (None, h + 1)
         | QM_ENOSPC \<Rightarrow> grow_query ok q (bufsize + bufsize) (h + 1)
         | QM_OK r \<Rightarrow> Inr (Some r, h + 1)))"
  by pat_completeness auto
termination
  by (relation "measure (\<lambda>(ok, q, bufsize, h). nat (INT_MAX + 1 - bufsize))") auto

declare grow_query.simps [simp del]

text \<open>
  \<open>AddSymbol\<close>: \<open>realloc\<close> the module's array to one more entry (the pointer is
  overwritten even when that fails), \<open>malloc\<close> the name, then store the address and
  the name \<open>module:symbol\<close> and count the symbol. The result is the return value, the
  module and the allocator's count.
\<close>

definition AddSymbol ::
  "world \<Rightarrow> Module \<Rightarrow> ulong \<Rightarrow> string \<Rightarrow> nat \<Rightarrow> bool \<times> Module \<times> nat" where
  "AddSymbol w mp address symbol h =
     (if \<not> alloc_ok w h then (False, mp\<lparr>sym_array := None\<rparr>, h + 1)
      else
        let old = (case sym_array mp of None \<Rightarrow> [] | Some blk \<Rightarrow> blk);
            blk = take (num_syms mp + 1) (old @ replicate (num_syms mp + 1) None);
            mp = mp\<lparr>sym_array := Some blk\<rparr>
        in
          if \<not> alloc_ok w (h + 1) then (False, mp, h + 2)
          else
            (True,
             mp\<lparr>sym_array :=
                  Some (blk[num_syms mp :=
                    Some \<lparr>value_st = address, name_st = mname mp @ '':'' @ symbol\<rparr>]),
                num_syms := num_syms mp + 1\<rparr>,
             h + 2))"

text \<open>The loop \<open>for (i = 0; i < rtn; i++)\<close> of \<open>AddModule\<close>. It drops what
  \<open>AddSymbol\<close> returns, as the source does.\<close>

fun AddSymbols ::
  "world \<Rightarrow> (ulong \<times> string) list \<Rightarrow> Module \<Rightarrow> nat \<Rightarrow> Module \<times> nat" where
  "AddSymbols w [] mp h = (mp, h)"
| "AddSymbols w ((address, symbol) # rest) mp h =
     (case AddSymbol w mp address symbol h of
        (added, mp', h') \<Rightarrow> AddSymbols w rest mp' h')"

text \<open>
  \<open>AddModule\<close>. \<open>QM_INFO\<close> writes into \<open>sym_array_modules[num_modules].module\<close>;
  no statement writes the member \<open>module_info\<close>. The entry is filled and counted
  before the symbols are asked for, so it stays in the table when that query fails. The
  symbol loop always writes to the entry just counted (\<open>num_modules - 1\<close>). The test
  \<open>rtn < 0\<close> on the unsigned \<open>rtn\<close> never holds and has no branch here.
\<close>

definition AddModule :: "world \<Rightarrow> string \<Rightarrow> kstate \<Rightarrow> fault + (bool \<times> kstate)" where
  "AddModule w symbol s =
     (if have_modules s then Inr (True, s)
      else
        (case qm_info w symbol of
           None \<Rightarrow> Inr (False, s)
         | Some (addr, sz) \<Rightarrow>
             if \<not> alloc_ok w (allocs s) then Inr (False, s\<lparr>allocs := allocs s + 1\<rparr>)
             else
               let mp = \<lparr>sym_array = None, num_syms = 0, mname = symbol,
                         module_addr = addr, module_size = sz, module_info_addr = None\<rparr>
               in
                 (case grow_query (alloc_ok w) (qm_symbols w symbol) 128 (allocs s + 1) of
                    Inl f \<Rightarrow> Inl f
                  | Inr (None, h) \<Rightarrow>
                      Inr (False, s\<lparr>sym_array_modules := sym_array_modules s @ [mp],
                                     allocs := h\<rparr>)
                  | Inr (Some syms, h) \<Rightarrow>
                      (case AddSymbols w syms mp h of
                         (mp', h') \<Rightarrow>
                           Inr (True, s\<lparr>sym_array_modules := sym_array_modules s @ [mp'],
                                         allocs := h'\<rparr>)))))"

text \<open>The loop of \<open>InitMsyms\<close> over the names in the buffer; it returns at the first
  module that \<open>AddModule\<close> refuses.\<close>

fun AddModules :: "world \<Rightarrow> string list \<Rightarrow> kstate \<Rightarrow> fault + (bool \<times> kstate)" where
  "AddModules w [] s = Inr (True, s)"
| "AddModules w (symbol # rest) s =
     (case AddModule w symbol s of
        Inl f \<Rightarrow> Inl f
      | Inr (False, s') \<Rightarrow> Inr (False, s')
      | Inr (True, s') \<Rightarrow> AddModules w rest s')"

text \<open>The comparison function handed to \<open>qsort\<close>: by address, as unsigned long.\<close>

definition symsort :: "sym_table \<Rightarrow> sym_table \<Rightarrow> int" where
  "symsort sym1 sym2 =
     (if value_st sym1 < value_st sym2 then - 1
      else if value_st sym1 = value_st sym2 then 0
      else 1)"

text \<open>
  \<open>qsort\<close> belongs to the C library. The standard asks of it an arrangement of the
  same elements in which the comparison function never puts a later element before an
  earlier one; the model is the insertion sort that does this.
\<close>

fun qsort_insert :: "('a \<Rightarrow> 'a \<Rightarrow> int) \<Rightarrow> 'a \<Rightarrow> 'a list \<Rightarrow> 'a list" where
  "qsort_insert compar x [] = [x]"
| "qsort_insert compar x (y # ys) =
     (if compar x y \<le> 0 then x # y # ys else y # qsort_insert compar x ys)"

definition qsort :: "('a \<Rightarrow> 'a \<Rightarrow> int) \<Rightarrow> 'a list \<Rightarrow> 'a list" where
  "qsort compar xs = foldr (qsort_insert compar) xs []"

text \<open>The first \<open>num_syms\<close> entries of a module's array, when all of them can be read.\<close>

definition read_syms :: "Module \<Rightarrow> sym_table list option" where
  "read_syms mp = those (map (read_slot mp) [0..<num_syms mp])"

text \<open>One round of the sorting loop: modules with fewer than two symbols are skipped,
  the others have their first \<open>num_syms\<close> entries sorted in place.\<close>

definition sort_module :: "Module \<Rightarrow> fault + Module" where
  "sort_module mp =
     (if num_syms mp < 2 then Inr mp
      else
        (case (sym_array mp, read_syms mp) of
           (Some blk, Some xs) \<Rightarrow>
             Inr (mp\<lparr>sym_array := Some (map Some (qsort symsort xs) @ drop (num_syms mp) blk)\<rparr>)
         | _ \<Rightarrow> Inl WildRead))"

fun sort_modules :: "Module list \<Rightarrow> fault + Module list" where
  "sort_modules [] = Inr []"
| "sort_modules (mp # mps) =
     (case sort_module mp of
        Inl f \<Rightarrow> Inl f
      | Inr mp' \<Rightarrow>
          (case sort_modules mps of
             Inl f \<Rightarrow> Inl f
           | Inr mps' \<Rightarrow> Inr (mp' # mps')))"

text \<open>
  \<open>FreeModules\<close>: for every module that counts symbols, \<open>free\<close> the name of each
  of its \<open>num_syms\<close> entries and then the array; in the end the table is gone and the
  flag and \<open>num_modules\<close> are 0. The names are read out of the array, so a module
  whose entries cannot all be read makes this a wild read.
\<close>

fun free_modules :: "Module list \<Rightarrow> fault + unit" where
  "free_modules [] = Inr ()"
| "free_modules (mp # mps) =
     (if num_syms mp = 0 then free_modules mps
      else
        (case read_syms mp of
           None \<Rightarrow> Inl WildRead
         | Some xs \<Rightarrow> free_modules mps))"

definition FreeModules :: "kstate \<Rightarrow> fault + kstate" where
  "FreeModules s =
     (case free_modules (sym_array_modules s) of
        Inl f \<Rightarrow> Inl f
      | Inr u \<Rightarrow> Inr (s\<lparr>have_modules := False, sym_array_modules := []\<rparr>))"

text \<open>
  \<open>InitMsyms\<close> from line 240 on, with the module names in hand and \<open>h\<close> requests
  made to the allocator: return 0 when there are no names, allocate \<open>mod_table\<close> and
  \<open>sym_array_modules\<close>, add the modules in the order of the buffer, set
  \<open>have_modules\<close> and sort.
\<close>

definition InitMsyms_table ::
  "world \<Rightarrow> string list \<Rightarrow> kstate \<Rightarrow> nat \<Rightarrow> fault + (bool \<times> kstate)" where
  "InitMsyms_table w names s h =
     (if length names \<le> 0 then Inr (False, s\<lparr>allocs := h\<rparr>)
      else if \<not> alloc_ok w h then Inr (False, s\<lparr>allocs := h + 1\<rparr>)
      else if \<not> alloc_ok w (h + 1) then Inr (False, s\<lparr>allocs := h + 2\<rparr>)
      else
        (case AddModules w names (s\<lparr>allocs := h + 2\<rparr>) of
           Inl f \<Rightarrow> Inl f
         | Inr (False, s') \<Rightarrow> Inr (False, s')
         | Inr (True, s') \<Rightarrow>
             (case sort_modules (sym_array_modules s') of
                Inl f \<Rightarrow> Inl f
              | Inr ms \<Rightarrow>
                  Inr (True, s'\<lparr>have_modules := True, sym_array_modules := ms\<rparr>))))"

text \<open>
  \<open>InitMsyms\<close>: the return value (\<open>True\<close> for 1) and the state it leaves. It calls
  \<open>FreeModules\<close>, asks for the module names in a buffer that grows from 32 bytes, and
  goes on as above.
\<close>

definition InitMsyms :: "world \<Rightarrow> kstate \<Rightarrow> fault + (bool \<times> kstate)" where
  "InitMsyms w s0 =
     (case FreeModules s0 of
        Inl f \<Rightarrow> Inl f
      | Inr s \<Rightarrow>
          (case grow_query (alloc_ok w) (qm_modules w) 32 (allocs s) of
             Inl f \<Rightarrow> Inl f
           | Inr (None, h) \<Rightarrow> Inr (False, s\<lparr>allocs := h\<rparr>)
           | Inr (Some names, h) \<Rightarrow> InitMsyms_table w names s h))"

section \<open>LookupModuleSymbol\<close>

text \<open>
  The inner loop \<open>for (nsym = 1, last = &mp->sym_array[0]; nsym < mp->num_syms; ++nsym)\<close>,
  with \<open>last\<close> as the index \<open>last_i\<close>. It stops at the first \<open>nsym\<close> whose address is above
  \<open>value\<close>, stores offset and size into \<open>sym\<close> and returns the name of \<open>last\<close>;
  \<open>Inr None\<close> when the loop runs out.
\<close>

function scan_syms ::
  "Module \<Rightarrow> ulong \<Rightarrow> symbol \<Rightarrow> nat \<Rightarrow> nat \<Rightarrow> fault + (string \<times> symbol) option" where
  "scan_syms mp v sy nsym last_i =
     (if nsym < num_syms mp then
        (case read_slot mp nsym of
           None \<Rightarrow> Inl WildRead
         | Some cur \<Rightarrow>
             if v < value_st cur then
               (case read_slot mp last_i of
                  None \<Rightarrow> Inl WildRead
                | Some l \<Rightarrow>
                    Inr (Some (name_st l,
                      sy\<lparr>offset_sy := ucast (v - value_st l),
                          size_sy := ucast (value_st cur - value_st l)\<rparr>)))
             else scan_syms mp v sy (nsym + 1) nsym)
      else Inr None)"
  by pat_completeness auto
termination
  by (relation "measure (\<lambda>(mp, v, sy, nsym, last_i). num_syms mp - nsym)") auto

text \<open>
  The address the lookup takes for the start of a module: \<open>mp->module.addr\<close> below
  version \<open>0x20112\<close>, \<open>mp->module_info.addr\<close> from there on.
\<close>

definition module_base :: "version \<Rightarrow> Module \<Rightarrow> ulong option" where
  "module_base ver mp = (if ver < 0x20112 then Some (module_addr mp) else module_info_addr mp)"

text \<open>
  The body of the loop over the modules: the symbol scan, then the comparison of the
  address with the module's extent (both ends included, as the source writes it), with
  the last symbol or, in a module without symbols, the module itself as the answer.
  \<open>(int) addr\<close> keeps the low 32 bits and is sign-extended again when it meets the
  unsigned long operands; below version \<open>0x20112\<close> the same values are computed on
  pointers. \<open>Inr None\<close>: go on with the next module.
\<close>

definition lookup_module ::
  "version \<Rightarrow> Module \<Rightarrow> ulong \<Rightarrow> symbol \<Rightarrow> fault + (string \<times> symbol) option" where
  "lookup_module ver mp v sy =
     (case scan_syms mp v sy 1 0 of
        Inl f \<Rightarrow> Inl f
      | Inr (Some r) \<Rightarrow> Inr (Some r)
      | Inr None \<Rightarrow>
          (case module_base ver mp of
             None \<Rightarrow> Inl WildRead
           | Some addr \<Rightarrow>
               if addr \<le> v \<and> v \<le> addr + module_size mp * 4096 then
                 if 0 < num_syms mp then
                   (case read_slot mp (num_syms mp - 1) of
                      None \<Rightarrow> Inl WildRead
                    | Some l \<Rightarrow>
                        Inr (Some (name_st l,
                          sy\<lparr>size_sy :=
                                ucast ((scast (ucast addr :: cint) :: ulong)
                                       + module_size mp * 4096 - v),
                              offset_sy := ucast (v - value_st l)\<rparr>)))
                 else
                   Inr (Some (mname mp,
                     sy\<lparr>size_sy := ucast (module_size mp * 4096),
                         offset_sy := ucast (v - addr)\<rparr>))
               else Inr None))"

text \<open>The loop \<open>for (nmod = 0; nmod < num_modules; ++nmod)\<close>; the first module that
  answers wins, and without an answer the function returns \<open>NULL\<close>.\<close>

fun lookup_modules ::
  "version \<Rightarrow> Module list \<Rightarrow> ulong \<Rightarrow> symbol \<Rightarrow> fault + (string option \<times> symbol)" where
  "lookup_modules ver [] v sy = Inr (None, sy)"
| "lookup_modules ver (mp # mps) v sy =
     (case lookup_module ver mp v sy of
        Inl f \<Rightarrow> Inl f
      | Inr (Some (n, sy')) \<Rightarrow> Inr (Some n, sy')
      | Inr None \<Rightarrow> lookup_modules ver mps v sy)"

definition LookupModuleSymbol ::
  "version \<Rightarrow> kstate \<Rightarrow> ulong \<Rightarrow> symbol \<Rightarrow> fault + (string option \<times> symbol)" where
  "LookupModuleSymbol ver s v sy =
     (let sy = sy\<lparr>size_sy := 0, offset_sy := 0\<rparr> in
      if num_modules s = 0 then Inr (None, sy)
      else lookup_modules ver (sym_array_modules s) v sy)"

text \<open>The result structure as the lookup leaves it when it starts to search.\<close>

definition sy_zero :: symbol where
  "sy_zero = \<lparr>size_sy = 0, offset_sy = 0\<rparr>"

section \<open>Example worlds\<close>

text \<open>The state before the first call of \<open>InitMsyms\<close>, and a result structure that
  still holds the values of an earlier lookup.\<close>

definition s_init :: kstate where
  "s_init = \<lparr>sym_array_modules = [], have_modules = False, allocs = 0\<rparr>"

definition sy_stale :: symbol where
  "sy_stale = \<lparr>size_sy = 7, offset_sy = 9\<rparr>"

text \<open>Two values of \<open>LINUX_VERSION_CODE\<close>: 2.1.0, below \<open>0x20112\<close>, and 2.4.0.\<close>

definition v_old :: version where
  "v_old = 0x20100"

definition v_new :: version where
  "v_new = 0x20400"

text \<open>
  A kernel with two modules: \<open>ext\<close> at \<open>0x5000\<close>, two pages, no symbols, and
  \<open>usb_core\<close> at \<open>0x1000\<close>, one page, with \<open>probe\<close> at \<open>0x1200\<close> and
  \<open>init\<close> at \<open>0x1000\<close> (reported in this order). The module list needs 100 bytes, a
  symbol list 300; every allocation succeeds.
\<close>

definition w_usb :: world where
  "w_usb =
     \<lparr>qm_modules = (\<lambda>n. if n < 100 then QM_ENOSPC else QM_OK [''ext'', ''usb_core'']),
      qm_info = (\<lambda>name. if name = ''usb_core'' then Some (0x1000, 1)
                        else if name = ''ext'' then Some (0x5000, 2) else None),
      qm_symbols = (\<lambda>name n. if n < 300 then QM_ENOSPC
                        else if name = ''usb_core''
                          then QM_OK [(0x1200, ''probe''), (0x1000, ''init'')]
                        else QM_OK []),
      alloc_ok = (\<lambda>k. True)\<rparr>"

definition m_ext :: Module where
  "m_ext = \<lparr>sym_array = None, num_syms = 0, mname = ''ext'',
            module_addr = 0x5000, module_size = 2, module_info_addr = None\<rparr>"

definition usb_syms :: "sym_table list" where
  "usb_syms = [\<lparr>value_st = 0x1000, name_st = ''usb_core:init''\<rparr>,
               \<lparr>value_st = 0x1200, name_st = ''usb_core:probe''\<rparr>]"

definition m_usb :: Module where
  "m_usb = \<lparr>sym_array = Some (map Some usb_syms), num_syms = 2, mname = ''usb_core'',
            module_addr = 0x1000, module_size = 1, module_info_addr = None\<rparr>"

definition st_usb :: kstate where
  "st_usb = \<lparr>sym_array_modules = [m_ext, m_usb], have_modules = True, allocs = 14\<rparr>"

text \<open>
  The same two modules behind a third that the kernel lists first: \<open>hi\<close> at
  \<open>0x8000\<close>, one page, with \<open>x\<close> at \<open>0x8000\<close> and \<open>y\<close> at \<open>0x8100\<close>. No two
  of the three modules share an address.
\<close>

definition w_hi :: world where
  "w_hi =
     \<lparr>qm_modules = (\<lambda>n. if n < 100 then QM_ENOSPC else QM_OK [''hi'', ''usb_core'', ''ext'']),
      qm_info = (\<lambda>name. if name = ''hi'' then Some (0x8000, 1)
                        else if name = ''usb_core'' then Some (0x1000, 1)
                        else if name = ''ext'' then Some (0x5000, 2) else None),
      qm_symbols = (\<lambda>name n. if n < 300 then QM_ENOSPC
                        else if name = ''hi'' then QM_OK [(0x8000, ''x''), (0x8100, ''y'')]
                        else if name = ''usb_core''
                          then QM_OK [(0x1200, ''probe''), (0x1000, ''init'')]
                        else QM_OK []),
      alloc_ok = (\<lambda>k. True)\<rparr>"

definition m_hi :: Module where
  "m_hi = \<lparr>sym_array = Some [Some \<lparr>value_st = 0x8000, name_st = ''hi:x''\<rparr>,
                              Some \<lparr>value_st = 0x8100, name_st = ''hi:y''\<rparr>],
           num_syms = 2, mname = ''hi'',
           module_addr = 0x8000, module_size = 1, module_info_addr = None\<rparr>"

definition st_hi :: kstate where
  "st_hi = \<lparr>sym_array_modules = [m_hi, m_usb, m_ext], have_modules = True, allocs = 21\<rparr>"

text \<open>A kernel without modules.\<close>

definition w_none :: world where
  "w_none =
     \<lparr>qm_modules = (\<lambda>n. QM_OK []),
      qm_info = (\<lambda>name. None),
      qm_symbols = (\<lambda>name n. QM_OK []),
      alloc_ok = (\<lambda>k. True)\<rparr>"





text \<open>
  More variants of \<open>w_usb\<close>: a C library that refuses request 11, the \<open>malloc\<close> for
  the name of \<open>probe\<close>; one that refuses request 12, the \<open>realloc\<close> of the symbol
  array for \<open>init\<close>; and a kernel whose \<open>QM_INFO\<close> fails for \<open>usb_core\<close>.
\<close>

definition w_noname :: world where
  "w_noname = w_usb\<lparr>alloc_ok := (\<lambda>k. k \<noteq> 11)\<rparr>"

definition w_lost :: world where
  "w_lost = w_usb\<lparr>alloc_ok := (\<lambda>k. k \<noteq> 12)\<rparr>"

definition w_noinfo :: world where
  "w_noinfo = w_usb\<lparr>qm_info := (\<lambda>name. if name = ''ext'' then Some (0x5000, 2) else None)\<rparr>"

definition st_noname :: kstate where
  "st_noname =
     \<lparr>sym_array_modules =
        [m_ext,
         \<lparr>sym_array = Some [Some \<lparr>value_st = 0x1000, name_st = ''usb_core:init''\<rparr>],
          num_syms = 1, mname = ''usb_core'',
          module_addr = 0x1000, module_size = 1, module_info_addr = None\<rparr>],
      have_modules = True, allocs = 14\<rparr>"

definition st_lost :: kstate where
  "st_lost =
     \<lparr>sym_array_modules =
        [m_ext,
         \<lparr>sym_array = None, num_syms = 1, mname = ''usb_core'',
          module_addr = 0x1000, module_size = 1, module_info_addr = None\<rparr>],
      have_modules = True, allocs = 13\<rparr>"

definition st_noinfo :: kstate where
  "st_noinfo = \<lparr>sym_array_modules = [m_ext], have_modules = False, allocs = 7\<rparr>"

section \<open>Facts about the symbol arrays\<close>

lemma those_eq_Some: "those ys = Some xs \<longleftrightarrow> ys = map Some xs"
  by (induction ys arbitrary: xs) (auto split: option.splits)

lemma read_syms_length: "read_syms mp = Some xs \<Longrightarrow> length xs = num_syms mp"
  by (auto simp: read_syms_def those_eq_Some dest: arg_cong [where f = length])

lemma read_syms_slot:
  assumes "read_syms mp = Some xs" and "k < num_syms mp"
  shows "read_slot mp k = Some (xs ! k)"
proof -
  from assms(1) have eq: "map (read_slot mp) [0..<num_syms mp] = map Some xs"
    by (simp add: read_syms_def those_eq_Some)
  then have "length xs = num_syms mp"
    by (auto dest: arg_cong [where f = length])
  with assms(2) eq show ?thesis
    by (metis add_0 diff_zero length_upt nth_map nth_upt)
qed

lemma sy_zeroed: "sy\<lparr>size_sy := 0, offset_sy := 0\<rparr> = sy_zero"
  by (cases sy) (simp add: sy_zero_def)

section \<open>Facts about the lookup\<close>

lemma lookup_modules_None:
  "lookup_modules ver ms v sy = Inr (None, sy') \<Longrightarrow> sy' = sy"
  by (induction ms) (auto split: sum.splits option.splits prod.splits)

section \<open>Facts about sorting\<close>

lemma symsort_le: "symsort x y \<le> 0 \<longleftrightarrow> value_st x \<le> value_st y"
  by (auto simp: symsort_def)

lemma set_qsort_insert: "set (qsort_insert compar x ys) = insert x (set ys)"
  by (induction ys) auto

lemma length_qsort_insert: "length (qsort_insert compar x ys) = Suc (length ys)"
  by (induction ys) auto

lemma length_qsort: "length (qsort compar xs) = length xs"
  by (induction xs) (simp_all add: qsort_def length_qsort_insert)

lemma sorted_qsort_insert:
  "sorted (map value_st ys) \<Longrightarrow> sorted (map value_st (qsort_insert symsort x ys))"
  by (induction ys) (auto simp: symsort_le set_qsort_insert)

lemma sorted_qsort: "sorted (map value_st (qsort symsort xs))"
  by (induction xs) (simp_all add: qsort_def sorted_qsort_insert)

lemma sorted_short: "length xs < 2 \<Longrightarrow> sorted (map f xs)"
  by (cases xs) (auto simp: less_Suc_eq_0_disj)

lemma read_syms_sorted_block:
  assumes "length zs = num_syms mp"
  shows "read_syms (mp\<lparr>sym_array := Some (map Some zs @ rest)\<rparr>) = Some zs"
proof -
  have "map (read_slot (mp\<lparr>sym_array := Some (map Some zs @ rest)\<rparr>)) [0..<num_syms mp] = map Some zs"
    using assms by (intro nth_equalityI) (auto simp: read_slot_def nth_append)
  then show ?thesis
    by (simp add: read_syms_def those_eq_Some)
qed

lemma sort_module_cases:
  assumes "sort_module m0 = Inr m"
  shows "(num_syms m0 < 2 \<and> m = m0) \<or>
         (\<exists>blk ys. 2 \<le> num_syms m0 \<and> sym_array m0 = Some blk \<and> read_syms m0 = Some ys \<and>
            m = m0\<lparr>sym_array := Some (map Some (qsort symsort ys) @ drop (num_syms m0) blk)\<rparr>)"
  using assms by (auto simp: sort_module_def split: if_splits option.splits)

lemma sort_module_sorted:
  assumes "sort_module m0 = Inr m" and "read_syms m = Some xs"
  shows "sorted (map value_st xs)"
  using sort_module_cases [OF assms(1)]
proof (elim disjE conjE exE)
  assume "num_syms m0 < 2" "m = m0"
  with read_syms_length [OF assms(2)] show ?thesis
    by (simp add: sorted_short)
next
  fix blk ys
  assume ys: "read_syms m0 = Some ys"
    and m: "m = m0\<lparr>sym_array := Some (map Some (qsort symsort ys) @ drop (num_syms m0) blk)\<rparr>"
  have "read_syms m = Some (qsort symsort ys)"
    unfolding m using read_syms_length [OF ys]
    by (intro read_syms_sorted_block) (simp add: length_qsort)
  with assms(2) have "xs = qsort symsort ys" by simp
  then show ?thesis
    by (simp only: sorted_qsort)
qed

lemma sort_module_readable:
  assumes "sort_module m0 = Inr m" and "2 \<le> num_syms m"
  shows "\<exists>xs. read_syms m = Some xs"
  using sort_module_cases [OF assms(1)]
proof (elim disjE conjE exE)
  assume "num_syms m0 < 2" "m = m0"
  with assms(2) show ?thesis by simp
next
  fix blk ys
  assume ys: "read_syms m0 = Some ys"
    and m: "m = m0\<lparr>sym_array := Some (map Some (qsort symsort ys) @ drop (num_syms m0) blk)\<rparr>"
  have "read_syms m = Some (qsort symsort ys)"
    unfolding m using read_syms_length [OF ys]
    by (intro read_syms_sorted_block) (simp add: length_qsort)
  then show ?thesis by blast
qed

lemma sort_modules_mem:
  "sort_modules ms0 = Inr ms \<Longrightarrow> m \<in> set ms \<Longrightarrow> \<exists>m0. sort_module m0 = Inr m"
  by (induction ms0 arbitrary: ms) (auto split: sum.splits)

lemma InitMsyms_True_sorted:
  assumes "InitMsyms w s0 = Inr (True, s)"
  shows "\<exists>ms0. sort_modules ms0 = Inr (sym_array_modules s)"
  using assms
  by (auto simp: InitMsyms_def InitMsyms_table_def
      split: sum.splits prod.splits option.splits if_splits bool.splits)

text \<open>In a table that \<open>InitMsyms\<close> has built, the symbols of every module are in
  ascending order, and a module with two or more symbols has all of them readable.\<close>

lemma InitMsyms_sorted:
  assumes "InitMsyms w s0 = Inr (True, s)" and "m \<in> set (sym_array_modules s)"
    and "read_syms m = Some xs"
  shows "sorted (map value_st xs)"
  using InitMsyms_True_sorted [OF assms(1)] assms(2,3)
  by (blast dest: sort_modules_mem sort_module_sorted)

lemma InitMsyms_readable:
  assumes "InitMsyms w s0 = Inr (True, s)" and "m \<in> set (sym_array_modules s)"
    and "2 \<le> num_syms m"
  shows "\<exists>xs. read_syms m = Some xs"
  using InitMsyms_True_sorted [OF assms(1)] assms(2,3)
  by (blast dest: sort_modules_mem sort_module_readable)

section \<open>Facts about the buffer loop and the build\<close>

lemma grow_query_rounds:
  fixes q :: "int \<Rightarrow> 'a qm_reply"
  assumes "0 < b" and "b * 2 ^ Suc k \<le> INT_MAX"
    and "\<forall>j<k. q (b * 2 ^ Suc j) = QM_ENOSPC"
    and "\<forall>j\<le>k. ok (h + j)"
    and "q (b * 2 ^ Suc k) \<noteq> QM_ENOSPC"
  shows "grow_query ok q b h =
     Inr (case q (b * 2 ^ Suc k) of QM_OK r \<Rightarrow> Some r | QM_ENOSPC \<Rightarrow> None | QM_ERR \<Rightarrow> None,
          h + Suc k)"
  using assms
proof (induction k arbitrary: b h)
  case 0
  then have "\<not> b \<le> 0" "\<not> INT_MAX < b + b" "ok h" "q (b + b) \<noteq> QM_ENOSPC"
    by (simp_all add: mult_2_right)
  then show ?case
    by (cases "q (b + b)") (simp_all add: grow_query.simps [of ok q b h] mult_2_right)
next
  case (Suc k)
  have pow: "(b + b) * 2 ^ Suc j = b * 2 ^ Suc (Suc j)" for j
    by (simp add: algebra_simps)
  have "(1::int) \<le> 2 ^ Suc k"
    by (rule one_le_power) simp
  then have "b * 2 \<le> b * 2 ^ Suc (Suc k)"
    using Suc.prems(1) by (intro mult_left_mono) simp_all
  with Suc.prems(2) have fits: "\<not> INT_MAX < b + b"
    by simp
  have first: "q (b + b) = QM_ENOSPC"
    using Suc.prems(3) [rule_format, of 0] by (simp add: mult_2_right)
  have ok0: "ok h"
    using Suc.prems(4) [rule_format, of 0] by simp
  have "grow_query ok q (b + b) (h + 1) =
     Inr (case q ((b + b) * 2 ^ Suc k) of QM_OK r \<Rightarrow> Some r | QM_ENOSPC \<Rightarrow> None | QM_ERR \<Rightarrow> None,
          h + 1 + Suc k)"
  proof (rule Suc.IH)
    show "0 < b + b" using Suc.prems(1) by simp
    show "(b + b) * 2 ^ Suc k \<le> INT_MAX" using Suc.prems(2) unfolding pow .
    show "\<forall>j<k. q ((b + b) * 2 ^ Suc j) = QM_ENOSPC"
      using Suc.prems(3) unfolding pow by auto
    show "\<forall>j\<le>k. ok (h + 1 + j)"
      using Suc.prems(4) by (auto dest: spec [of _ "Suc _"])
    show "q ((b + b) * 2 ^ Suc k) \<noteq> QM_ENOSPC"
      using Suc.prems(5) unfolding pow .
  qed
  then have rest: "grow_query ok q (b + b) (h + 1) =
     Inr (case q (b * 2 ^ Suc (Suc k)) of QM_OK r \<Rightarrow> Some r | QM_ENOSPC \<Rightarrow> None | QM_ERR \<Rightarrow> None,
          h + Suc (Suc k))"
    unfolding pow by simp
  have "grow_query ok q b h = grow_query ok q (b + b) (h + 1)"
    using Suc.prems(1) fits first ok0 by (simp add: grow_query.simps [of ok q b h])
  with rest show ?case
    by (simp only:)
qed


lemma FreeModules_Inr:
  "FreeModules s = Inr s1 \<Longrightarrow>
   s1 = \<lparr>sym_array_modules = [], have_modules = False, allocs = allocs s\<rparr>"
  by (cases s) (auto simp: FreeModules_def split: sum.splits)

lemma InitMsyms_after_query:
  assumes "FreeModules s = Inr s1"
    and "grow_query (alloc_ok w) (qm_modules w) 32 (allocs s) = Inr (r, h)"
  shows "InitMsyms w s =
     (case r of
        None \<Rightarrow> Inr (False, \<lparr>sym_array_modules = [], have_modules = False, allocs = h\<rparr>)
      | Some names \<Rightarrow> InitMsyms_table w names s1 h)"
  using assms FreeModules_Inr [OF assms(1)]
  by (simp add: InitMsyms_def split: option.splits)





section \<open>Facts about a build without failed allocations\<close>










section \<open>Facts about the rounds of the two queries\<close>

lemma InitMsyms_rounds:
  assumes free: "FreeModules s = Inr s1"
    and fits: "32 * 2 ^ Suc k \<le> INT_MAX"
    and full: "\<forall>j<k. qm_modules w (32 * 2 ^ Suc j) = QM_ENOSPC"
    and mem: "\<forall>j\<le>k. alloc_ok w (allocs s + j)"
  shows "(qm_modules w (32 * 2 ^ Suc k) = QM_OK names \<longrightarrow>
           InitMsyms w s = InitMsyms_table w names s1 (allocs s + Suc k)) \<and>
         (qm_modules w (32 * 2 ^ Suc k) = QM_ERR \<longrightarrow>
           InitMsyms w s =
             Inr (False, \<lparr>sym_array_modules = [], have_modules = False,
                          allocs = allocs s + Suc k\<rparr>))"
proof (intro conjI impI)
  assume ok: "qm_modules w (32 * 2 ^ Suc k) = QM_OK names"
  then have "grow_query (alloc_ok w) (qm_modules w) 32 (allocs s) =
      Inr (Some names, allocs s + Suc k)"
    using grow_query_rounds [of 32 k "qm_modules w" "alloc_ok w" "allocs s"] fits full mem
    by simp
  from InitMsyms_after_query [OF free this]
  show "InitMsyms w s = InitMsyms_table w names s1 (allocs s + Suc k)"
    by simp
next
  assume err: "qm_modules w (32 * 2 ^ Suc k) = QM_ERR"
  then have "grow_query (alloc_ok w) (qm_modules w) 32 (allocs s) =
      Inr (None, allocs s + Suc k)"
    using grow_query_rounds [of 32 k "qm_modules w" "alloc_ok w" "allocs s"] fits full mem
    by simp
  from InitMsyms_after_query [OF free this]
  show "InitMsyms w s =
      Inr (False, \<lparr>sym_array_modules = [], have_modules = False, allocs = allocs s + Suc k\<rparr>)"
    by simp
qed





section \<open>The lookup: what it returns\<close>

text \<open>
  C10. On every call \<open>LookupModuleSymbol\<close> first stores 0 in the size and the offset of
  the caller's structure: what the structure held before has no influence on the
  result, and whenever the function returns \<open>NULL\<close> the structure holds size 0 and
  offset 0.
\<close>

theorem LookupModuleSymbol_zeroes_first:
  "LookupModuleSymbol ver s v sy = LookupModuleSymbol ver s v sy_zero \<and>
   (\<forall>sy'. LookupModuleSymbol ver s v sy = Inr (None, sy') \<longrightarrow>
      size_sy sy' = 0 \<and> offset_sy sy' = 0)"
proof
  show "LookupModuleSymbol ver s v sy = LookupModuleSymbol ver s v sy_zero"
    by (simp add: LookupModuleSymbol_def sy_zeroed)
next
  show "\<forall>sy'. LookupModuleSymbol ver s v sy = Inr (None, sy') \<longrightarrow>
      size_sy sy' = 0 \<and> offset_sy sy' = 0"
  proof (intro allI impI)
    fix sy'
    assume "LookupModuleSymbol ver s v sy = Inr (None, sy')"
    then have "sy' = sy_zero"
      by (auto simp: LookupModuleSymbol_def sy_zeroed dest: lookup_modules_None split: if_splits)
    then show "size_sy sy' = 0 \<and> offset_sy sy' = 0"
      by (simp add: sy_zero_def)
  qed
qed

text \<open>Witness: in the table of \<open>w_usb\<close> the address \<open>0x9000\<close> belongs to no module;
  the stale 7 and 9 of the structure are gone.\<close>

theorem LookupModuleSymbol_zeroes_first_witness:
  "LookupModuleSymbol v_old st_usb 0x9000 sy_stale =
     Inr (None, \<lparr>size_sy = 0, offset_sy = 0\<rparr>) \<and>
   size_sy \<lparr>size_sy = 0, offset_sy = 0\<rparr> = 0 \<and>
   offset_sy \<lparr>size_sy = 0, offset_sy = 0\<rparr> = 0"
proof -
  have absent: "LookupModuleSymbol v_old st_usb 0x9000 sy_stale =
      Inr (None, \<lparr>size_sy = 0, offset_sy = 0\<rparr>)"
    by code_simp
  from LookupModuleSymbol_zeroes_first [of v_old st_usb "0x9000" sy_stale] absent
  show ?thesis by blast
qed

text \<open>
  C4, evaluated where it fails. The scan of \<open>usb_core\<close> stops at the pair
  (\<open>init\<close>, \<open>probe\<close>) for the address \<open>0x500\<close>, which lies below \<open>init\<close> at
  \<open>0x1000\<close>: the function returns \<open>usb_core:init\<close> with the negative offset
  \<open>0x500 - 0x1000\<close>. The scan does not depend on \<open>LINUX_VERSION_CODE\<close>; the
  lookup in the table of \<open>w_usb\<close> is evaluated below \<open>0x20112\<close>, and from
  \<open>0x20112\<close> on the same happens in the table of \<open>w_hi\<close>, whose first module has
  two symbols.
\<close>

theorem scan_takes_address_below_first_symbol:
  "InitMsyms w_usb s_init = Inr (True, st_usb) \<and>
   scan_syms m_usb 0x500 sy_zero 1 0 =
     Inr (Some (''usb_core:init'', \<lparr>size_sy = 0x200, offset_sy = 0xFFFFF500\<rparr>)) \<and>
   LookupModuleSymbol v_old st_usb 0x500 sy_stale =
     Inr (Some ''usb_core:init'', \<lparr>size_sy = 0x200, offset_sy = 0xFFFFF500\<rparr>) \<and>
   sint (0xFFFFF500 :: cint) = - 2816 \<and>
   \<not> value_st (usb_syms ! 0) \<le> (0x500 :: ulong) \<and>
   InitMsyms w_hi s_init = Inr (True, st_hi) \<and>
   LookupModuleSymbol v_new st_hi 0x500 sy_stale =
     Inr (Some ''hi:x'', \<lparr>size_sy = 0x100, offset_sy = 0xFFFF8500\<rparr>) \<and>
   sint (0xFFFF8500 :: cint) = - 31488"
  by code_simp

text \<open>
  C1, evaluated where it fails. The kernel of \<open>w_hi\<close> has three modules that share no
  address. \<open>0x1100\<close> lies between \<open>init\<close> and \<open>probe\<close> of \<open>usb_core\<close>, but the
  scan of \<open>hi\<close>, the first module of the table, stops at its pair (\<open>x\<close>, \<open>y\<close>)
  without asking whether the address is at or above \<open>x\<close>: the function returns
  \<open>hi:x\<close> with the offset \<open>0x1100 - 0x8000\<close> and the size of \<open>x\<close>, for either
  value of \<open>LINUX_VERSION_CODE\<close>.
\<close>

theorem bracket_in_later_module_is_missed:
  "InitMsyms w_hi s_init = Inr (True, st_hi) \<and>
   sym_array_modules st_hi = [m_hi, m_usb, m_ext] \<and>
   read_syms m_usb = Some usb_syms \<and>
   value_st (usb_syms ! 0) \<le> 0x1100 \<and> 0x1100 < value_st (usb_syms ! 1) \<and>
   (0x1100 :: ulong) < module_addr m_hi \<and>
   LookupModuleSymbol v_old st_hi 0x1100 sy_stale =
     Inr (Some ''hi:x'', \<lparr>size_sy = 0x100, offset_sy = 0xFFFF9100\<rparr>) \<and>
   LookupModuleSymbol v_new st_hi 0x1100 sy_stale =
     Inr (Some ''hi:x'', \<lparr>size_sy = 0x100, offset_sy = 0xFFFF9100\<rparr>) \<and>
   name_st (usb_syms ! 0) = ''usb_core:init'' \<and>
   sint (0xFFFF9100 :: cint) = - 28416"
  by code_simp

text \<open>
  C5, evaluated where it fails. \<open>usb_core\<close> occupies \<open>0x1000\<close> up to, not including,
  \<open>0x2000\<close>. The address \<open>0x2000\<close> lies in no module and between no two symbols,
  and still the function answers with the last symbol of \<open>usb_core\<close> and size 0; the
  first address it gives up on is \<open>0x2001\<close>. This is the lookup below version
  \<open>0x20112\<close>. From \<open>0x20112\<close> on the comparison reads \<open>module_info.addr\<close>,
  which nobody has written, already in \<open>ext\<close>, the first module of the table.
\<close>

theorem end_boundary_is_answered:
  "InitMsyms w_usb s_init = Inr (True, st_usb) \<and>
   \<not> (0x2000 :: ulong) < module_addr m_usb + module_size m_usb * 4096 \<and>
   \<not> module_addr m_ext \<le> (0x2000 :: ulong) \<and>
   \<not> (0x2000 :: ulong) < value_st (usb_syms ! 1) \<and>
   LookupModuleSymbol v_old st_usb 0x2000 sy_stale =
     Inr (Some ''usb_core:probe'', \<lparr>size_sy = 0, offset_sy = 0xE00\<rparr>) \<and>
   LookupModuleSymbol v_old st_usb 0x2001 sy_stale =
     Inr (None, \<lparr>size_sy = 0, offset_sy = 0\<rparr>) \<and>
   LookupModuleSymbol v_new st_usb 0x2000 sy_stale = Inl WildRead"
  by code_simp

text \<open>
  C6, evaluated where it fails. In the table of \<open>w_hi\<close> the address \<open>0x1300\<close> lies
  inside \<open>usb_core\<close>, at or above its last symbol \<open>probe\<close> and between no two of
  its symbols. The scan of \<open>hi\<close>, the first module of the table, takes the address
  for its pair (\<open>x\<close>, \<open>y\<close>): the function returns \<open>hi:x\<close>, for either value of
  \<open>LINUX_VERSION_CODE\<close>, and never reaches the last symbol of \<open>usb_core\<close>. From
  version \<open>0x20112\<close> on the loop body, run on \<open>usb_core\<close> alone, does not reach
  it either: the comparison with the module's extent reads \<open>module_info.addr\<close>,
  which nobody has written.
\<close>

theorem tail_in_later_module_is_missed:
  "InitMsyms w_hi s_init = Inr (True, st_hi) \<and>
   sym_array_modules st_hi = [m_hi, m_usb, m_ext] \<and>
   read_syms m_usb = Some usb_syms \<and>
   value_st (last usb_syms) \<le> 0x1300 \<and>
   module_addr m_usb \<le> 0x1300 \<and> 0x1300 < module_addr m_usb + module_size m_usb * 4096 \<and>
   (0x1300 :: ulong) < module_addr m_hi \<and>
   LookupModuleSymbol v_old st_hi 0x1300 sy_stale =
     Inr (Some ''hi:x'', \<lparr>size_sy = 0x100, offset_sy = 0xFFFF9300\<rparr>) \<and>
   LookupModuleSymbol v_new st_hi 0x1300 sy_stale =
     Inr (Some ''hi:x'', \<lparr>size_sy = 0x100, offset_sy = 0xFFFF9300\<rparr>) \<and>
   name_st (last usb_syms) = ''usb_core:probe'' \<and>
   sint (0xFFFF9300 :: cint) = - 27904 \<and>
   lookup_module v_new m_usb 0x1300 sy_zero = Inl WildRead"
  by code_simp

text \<open>
  C7, evaluated where it fails. In the table of \<open>w_hi\<close> the address \<open>0x5800\<close> lies
  inside \<open>ext\<close>, which has no symbols. The scan of \<open>hi\<close>, the first module of the
  table, takes the address for its pair (\<open>x\<close>, \<open>y\<close>): the function returns
  \<open>hi:x\<close>, for either value of \<open>LINUX_VERSION_CODE\<close>, and not the name \<open>ext\<close>.
  In the table of \<open>w_usb\<close>, where \<open>ext\<close> is the first module, the lookup from
  version \<open>0x20112\<close> on does not return that name either: the comparison with the
  module's extent reads \<open>module_info.addr\<close>, which nobody has written.
\<close>

theorem no_symbol_module_behind_is_missed:
  "InitMsyms w_hi s_init = Inr (True, st_hi) \<and>
   sym_array_modules st_hi = [m_hi, m_usb, m_ext] \<and>
   num_syms m_ext = 0 \<and>
   module_addr m_ext \<le> 0x5800 \<and> 0x5800 < module_addr m_ext + module_size m_ext * 4096 \<and>
   (0x5800 :: ulong) < module_addr m_hi \<and>
   LookupModuleSymbol v_old st_hi 0x5800 sy_stale =
     Inr (Some ''hi:x'', \<lparr>size_sy = 0x100, offset_sy = 0xFFFFD800\<rparr>) \<and>
   LookupModuleSymbol v_new st_hi 0x5800 sy_stale =
     Inr (Some ''hi:x'', \<lparr>size_sy = 0x100, offset_sy = 0xFFFFD800\<rparr>) \<and>
   mname m_ext = ''ext'' \<and>
   sint (0xFFFFD800 :: cint) = - 10240 \<and>
   InitMsyms w_usb s_init = Inr (True, st_usb) \<and>
   sym_array_modules st_usb = [m_ext, m_usb] \<and>
   LookupModuleSymbol v_new st_usb 0x5800 sy_stale = Inl WildRead"
  by code_simp

section \<open>The table after InitMsyms\<close>

text \<open>
  C9. After \<open>InitMsyms\<close> has returned 1, in every module of the table any two
  neighbouring symbols \<open>sym_array[i]\<close> and \<open>sym_array[i + 1]\<close> below \<open>num_syms\<close>
  can be read and are in ascending order of address. For a module with fewer than two
  symbols there is no such pair.
\<close>

theorem InitMsyms_sortedness:
  assumes built: "InitMsyms w s0 = Inr (True, s)"
    and m: "m \<in> set (sym_array_modules s)"
    and i: "Suc i < num_syms m"
  shows "\<exists>x y. read_slot m i = Some x \<and> read_slot m (Suc i) = Some y \<and>
           value_st x \<le> value_st y"
proof -
  from i have "2 \<le> num_syms m" by simp
  with built m obtain xs where xs: "read_syms m = Some xs"
    using InitMsyms_readable by blast
  have len: "length xs = num_syms m"
    using xs by (rule read_syms_length)
  have "sorted (map value_st xs)"
    using built m xs by (rule InitMsyms_sorted)
  then have "value_st (xs ! i) \<le> value_st (xs ! Suc i)"
    using sorted_nth_mono [of "map value_st xs" i "Suc i"] i len by simp
  moreover have "read_slot m i = Some (xs ! i)" "read_slot m (Suc i) = Some (xs ! Suc i)"
    using read_syms_slot [OF xs] i by simp_all
  ultimately show ?thesis by blast
qed

text \<open>Witness: the kernel of \<open>w_usb\<close> reports \<open>probe\<close> before \<open>init\<close>; in the
  table \<open>init\<close> comes first.\<close>

theorem InitMsyms_sortedness_witness:
  "InitMsyms w_usb s_init = Inr (True, st_usb) \<and>
   m_usb \<in> set (sym_array_modules st_usb) \<and> Suc 0 < num_syms m_usb \<and>
   (\<exists>x y. read_slot m_usb 0 = Some x \<and> read_slot m_usb (Suc 0) = Some y \<and>
      value_st x \<le> value_st y)"
proof -
  have built: "InitMsyms w_usb s_init = Inr (True, st_usb)"
    by code_simp
  have m: "m_usb \<in> set (sym_array_modules st_usb)"
    by (simp add: st_usb_def)
  have i: "Suc 0 < num_syms m_usb"
    by (simp add: m_usb_def)
  from InitMsyms_sortedness [OF built m i] built m i
  show ?thesis by blast
qed

section \<open>InitMsyms: the queries\<close>

text \<open>
  C3, as amended. When the kernel reports no loaded module, in whichever round of the
  buffer loop, with the previous table released by \<open>FreeModules\<close> and the buffer
  allocated up to that round, \<open>InitMsyms\<close> returns 0, the value it returns when
  something went wrong. The table it leaves is empty, and every lookup against it
  returns \<open>NULL\<close> with size 0 and offset 0.
\<close>

theorem no_modules_returns_zero:
  assumes free: "FreeModules s = Inr s1"
    and fits: "32 * 2 ^ Suc k \<le> INT_MAX"
    and full: "\<forall>j<k. qm_modules w (32 * 2 ^ Suc j) = QM_ENOSPC"
    and mem: "\<forall>j\<le>k. alloc_ok w (allocs s + j)"
    and none: "qm_modules w (32 * 2 ^ Suc k) = QM_OK []"
  shows "InitMsyms w s =
           Inr (False, \<lparr>sym_array_modules = [], have_modules = False,
                        allocs = allocs s + Suc k\<rparr>) \<and>
         num_modules \<lparr>sym_array_modules = [], have_modules = False,
                      allocs = allocs s + Suc k\<rparr> = 0 \<and>
         LookupModuleSymbol ver \<lparr>sym_array_modules = [], have_modules = False,
                                 allocs = allocs s + Suc k\<rparr> a sy =
           Inr (None, \<lparr>size_sy = 0, offset_sy = 0\<rparr>)"
proof -
  have "InitMsyms w s = InitMsyms_table w [] s1 (allocs s + Suc k)"
    using InitMsyms_rounds [OF free fits full mem] none by simp
  then show ?thesis
    using FreeModules_Inr [OF free]
    by (simp add: InitMsyms_table_def LookupModuleSymbol_def num_modules_def
        sy_zeroed sy_zero_def)
qed

text \<open>Witness: the kernel of \<open>w_none\<close> has no modules; its first answer, into 64
  bytes, is the empty list.\<close>

theorem no_modules_returns_zero_witness:
  "FreeModules s_init = Inr s_init \<and> qm_modules w_none (32 * 2 ^ Suc 0) = QM_OK [] \<and>
   InitMsyms w_none s_init =
     Inr (False, \<lparr>sym_array_modules = [], have_modules = False, allocs = 1\<rparr>) \<and>
   LookupModuleSymbol v_new \<lparr>sym_array_modules = [], have_modules = False, allocs = 1\<rparr>
       0x1100 sy_stale =
     Inr (None, \<lparr>size_sy = 0, offset_sy = 0\<rparr>)"
proof -
  have free: "FreeModules s_init = Inr s_init"
    by (simp add: FreeModules_def s_init_def)
  have fits: "32 * 2 ^ Suc 0 \<le> INT_MAX"
    by (simp add: INT_MAX_def)
  have full: "\<forall>j<0. qm_modules w_none (32 * 2 ^ Suc j) = QM_ENOSPC"
    by simp
  have mem: "\<forall>j\<le>0. alloc_ok w_none (allocs s_init + j)"
    by (simp add: w_none_def)
  have none: "qm_modules w_none (32 * 2 ^ Suc 0) = QM_OK []"
    by (simp add: w_none_def)
  from no_modules_returns_zero [OF free fits full mem none, of v_new "0x1100" sy_stale]
    free none
  show ?thesis by (simp add: s_init_def)
qed

text \<open>
  Counterexample to C3 as stated: the kernel of \<open>w_none\<close> answers the first query
  with an empty list of modules, and \<open>InitMsyms\<close> returns 0, not 1. Called on the
  table that the build of \<open>w_lost\<close> has left, it does not return at all:
  \<open>FreeModules\<close> reads the names to free through the \<open>NULL\<close> in \<open>sym_array\<close>.
\<close>

theorem no_modules_counterexample:
  "qm_modules w_none 64 = QM_OK [] \<and>
   InitMsyms w_none s_init =
     Inr (False, \<lparr>sym_array_modules = [], have_modules = False, allocs = 1\<rparr>) \<and>
   fst (projr (InitMsyms w_none s_init)) \<noteq> True \<and>
   InitMsyms w_lost s_init = Inr (True, st_lost) \<and>
   InitMsyms w_none st_lost = Inl WildRead"
  by code_simp




text \<open>
  C2, evaluated where it fails. When the \<open>malloc\<close> for the name of \<open>probe\<close> fails,
  \<open>AddSymbol\<close> returns 0, \<open>AddModule\<close> drops that value, and \<open>InitMsyms\<close>
  returns 1 with a table that lacks \<open>probe\<close>. When the \<open>realloc\<close> for \<open>init\<close>
  fails, \<open>InitMsyms\<close> returns 1 with \<open>num_syms = 1\<close> and \<open>sym_array = NULL\<close>, and
  the next lookup in that module reads through \<open>NULL\<close>. When \<open>QM_INFO\<close> fails for
  \<open>usb_core\<close>, \<open>InitMsyms\<close> returns 0, but \<open>ext\<close> stays in the table and
  \<open>LookupModuleSymbol\<close> goes on answering from it.
\<close>

theorem failed_steps_leave_a_table:
  "InitMsyms w_noname s_init = Inr (True, st_noname) \<and>
   LookupModuleSymbol v_old st_noname 0x1300 sy_stale =
     Inr (Some ''usb_core:init'', \<lparr>size_sy = 0xD00, offset_sy = 0x300\<rparr>) \<and>
   InitMsyms w_lost s_init = Inr (True, st_lost) \<and>
   LookupModuleSymbol v_old st_lost 0x1300 sy_stale = Inl WildRead \<and>
   InitMsyms w_noinfo s_init = Inr (False, st_noinfo) \<and>
   LookupModuleSymbol v_old st_noinfo 0x5800 sy_stale =
     Inr (Some ''ext'', \<lparr>size_sy = 0x2000, offset_sy = 0x800\<rparr>)"
  by code_simp

end
